theory Spec2Isabelle
  imports Main
begin

section \<open>JavaScript values and exceptions\<close>

text \<open>
  The three source files are JavaScript modules run by Node. The values that flow through
  them are modelled by one datatype. An \<open>ErrorObj\<close> is an instance of \<open>Error\<close>,
  \<open>TypeError\<close> or \<open>ReferenceError\<close> with its message; the messages of the errors the
  engine raises itself are written as V8 words them. Numbers are integers (no claim
  depends on a fraction), objects are lists of their own properties in insertion order,
  and functions are not values of the model.
\<close>

datatype error_kind = Error | TypeError | ReferenceError

datatype jsval =
    Undefined
  | Null
  | Bool bool
  | Num int
  | Str string
  | Obj "(string \<times> jsval) list"
  | ErrorObj error_kind string

text \<open>
  A JavaScript expression either yields a value or throws one: \<open>Inl\<close> carries the
  thrown value, \<open>Inr\<close> the result. \<open>bindE\<close> is sequencing: a throw on the left
  skips the rest.
\<close>

type_synonym 'a result = "jsval + 'a"

definition bindE :: "'a result \<Rightarrow> ('a \<Rightarrow> 'b result) \<Rightarrow> 'b result" where
  "bindE m f = (case m of Inl e \<Rightarrow> Inl e | Inr x \<Rightarrow> f x)"

text \<open>
  Reading an identifier that no enclosing scope binds throws a \<open>ReferenceError\<close>. The
  modules read four such identifiers: \<open>states\<close> (transactionLifecycle.js),
  \<open>TransactionLifecycle\<close> and \<open>tx\<close> (transactionManager.js, which binds the required
  class to the name \<open>TrasactionLifecycle\<close>) and \<open>formatters\<close> (the block tracker).
\<close>

definition free_identifier :: "string \<Rightarrow> 'a result" where
  "free_identifier name = Inl (ErrorObj ReferenceError (name @ '' is not defined''))"

text \<open>\<open>!v\<close>, \<open>if (v)\<close>, \<open>a && b\<close>: the truthiness of a value.\<close>

fun truthy :: "jsval \<Rightarrow> bool" where
  "truthy Undefined = False"
| "truthy Null = False"
| "truthy (Bool b) = b"
| "truthy (Num n) = (n \<noteq> 0)"
| "truthy (Str s) = (s \<noteq> [])"
| "truthy (Obj kvs) = True"
| "truthy (ErrorObj k m) = True"

fun typeof :: "jsval \<Rightarrow> string" where
  "typeof Undefined = ''undefined''"
| "typeof Null = ''object''"
| "typeof (Bool b) = ''boolean''"
| "typeof (Num n) = ''number''"
| "typeof (Str s) = ''string''"
| "typeof (Obj kvs) = ''object''"
| "typeof (ErrorObj k m) = ''object''"

definition digit_char :: "nat \<Rightarrow> char" where
  "digit_char d = ''0123456789'' ! d"

text \<open>
  A number that is an integer prints in decimal, with a sign when negative (numbers from
  1e21 on, which JavaScript prints in exponent form, are left out).
\<close>

fun decimal_digits :: "nat \<Rightarrow> string \<Rightarrow> string" where
  "decimal_digits n acc =
     (if n < 10 then digit_char n # acc
      else decimal_digits (n div 10) (digit_char (n mod 10) # acc))"

definition number_to_string :: "int \<Rightarrow> string" where
  "number_to_string i =
     (if 0 \<le> i then decimal_digits (nat i) [] else CHR ''-'' # decimal_digits (nat (- i)) [])"

fun kind_name :: "error_kind \<Rightarrow> string" where
  "kind_name Error = ''Error''"
| "kind_name TypeError = ''TypeError''"
| "kind_name ReferenceError = ''ReferenceError''"

text \<open>
  \<open>to_string\<close> is the conversion a template literal \<open>`${v}`\<close> and a computed property
  key \<open>o[v]\<close> apply to \<open>v\<close>.
\<close>

fun to_string :: "jsval \<Rightarrow> string" where
  "to_string Undefined = ''undefined''"
| "to_string Null = ''null''"
| "to_string (Bool b) = (if b then ''true'' else ''false'')"
| "to_string (Num n) = number_to_string n"
| "to_string (Str s) = s"
| "to_string (Obj kvs) = ''[object Object]''"
| "to_string (ErrorObj k m) = (if m = [] then kind_name k else kind_name k @ '': '' @ m)"

text \<open>
  \<open>get_prop v k\<close> is the property read \<open>v.k\<close>: a \<open>TypeError\<close> on \<open>undefined\<close> and
  \<open>null\<close>, the own property of an object (\<open>undefined\<close> when it has none; object
  literals are taken with distinct keys), the length of a string (its characters by
  index are left out). Properties inherited from the built-in prototypes are functions;
  they are not data and are read as \<open>undefined\<close>.
\<close>

definition own_prop :: "(string \<times> jsval) list \<Rightarrow> string \<Rightarrow> jsval" where
  "own_prop kvs k = (case map_of kvs k of None \<Rightarrow> Undefined | Some v \<Rightarrow> v)"

fun get_prop :: "jsval \<Rightarrow> string \<Rightarrow> jsval result" where
  "get_prop Undefined k =
     Inl (ErrorObj TypeError (''Cannot read properties of undefined (reading '' @ [CHR 0x27] @ k @ [CHR 0x27] @ '')''))"
| "get_prop Null k =
     Inl (ErrorObj TypeError (''Cannot read properties of null (reading '' @ [CHR 0x27] @ k @ [CHR 0x27] @ '')''))"
| "get_prop (Obj kvs) k = Inr (own_prop kvs k)"
| "get_prop (Str s) k = Inr (if k = ''length'' then Num (int (length s)) else Undefined)"
| "get_prop (ErrorObj kd m) k =
     Inr (if k = ''message'' then Str m else if k = ''name'' then Str (kind_name kd) else Undefined)"
| "get_prop (Bool b) k = Inr Undefined"
| "get_prop (Num n) k = Inr Undefined"

text \<open>\<open>o[v]\<close>: the property of \<open>o\<close> whose key is \<open>v\<close> converted to a string.\<close>

definition get_elem :: "jsval \<Rightarrow> jsval \<Rightarrow> jsval result" where
  "get_elem obj key = get_prop obj (to_string key)"

definition lower_char :: "char \<Rightarrow> char" where
  "lower_char c =
     (case map_of (zip ''ABCDEFGHIJKLMNOPQRSTUVWXYZ'' ''abcdefghijklmnopqrstuvwxyz'') c of
        None \<Rightarrow> c
      | Some d \<Rightarrow> d)"

text \<open>
  \<open>v.toLowerCase()\<close>: only a string has the method (ASCII letters are folded, which is
  all an address in hexadecimal holds); on any other value the call throws a \<open>TypeError\<close>.
\<close>

fun toLowerCase :: "jsval \<Rightarrow> jsval result" where
  "toLowerCase (Str s) = Inr (Str (map lower_char s))"
| "toLowerCase Undefined = get_prop Undefined ''toLowerCase''"
| "toLowerCase Null = get_prop Null ''toLowerCase''"
| "toLowerCase v = Inl (ErrorObj TypeError ''from.toLowerCase is not a function'')"

text \<open>An assignment to a binding declared with \<open>const\<close> throws.\<close>

definition assign_const :: "jsval \<Rightarrow> 'a result" where
  "assign_const v = Inl (ErrorObj TypeError ''Assignment to constant variable.'')"

section \<open>TransactionLifecycle (transactionLifecycle.js)\<close>

text \<open>
  The object's fields, as the constructor and the methods write them: \<open>_transaction\<close>,
  \<open>_stage\<close>, \<open>_receipt\<close>, \<open>_confirmationsRequired\<close>, and \<open>_state\<close>, which the
  constructor does not initialise (it reads as \<open>undefined\<close> until a method assigns it).
  \<open>emitted\<close> is the sequence of \<open>emit\<close> calls made so far, each with the event's name
  and arguments; the listeners that an emitter runs belong to its callers.
\<close>

record TransactionLifecycle =
  u_transaction :: jsval
  u_stage :: jsval
  u_receipt :: jsval
  u_confirmationsRequired :: jsval
  u_state :: jsval
  emitted :: "(string \<times> jsval list) list"

definition new_TransactionLifecycle :: "jsval \<Rightarrow> jsval \<Rightarrow> TransactionLifecycle" where
  "new_TransactionLifecycle transaction confirmationsRequired =
     \<lparr> u_transaction = transaction,
       u_stage = Str ''unsubmitted'',
       u_receipt = Null,
       u_confirmationsRequired = confirmationsRequired,
       u_state = Undefined,
       emitted = [] \<rparr>"

text \<open>The four getters: \<open>get transaction()\<close>, \<open>get stage()\<close>, \<open>get receipt()\<close>, \<open>get confirmationsRequired()\<close>.\<close>

definition get_transaction :: "TransactionLifecycle \<Rightarrow> jsval" where
  "get_transaction lc = u_transaction lc"

definition get_stage :: "TransactionLifecycle \<Rightarrow> jsval" where
  "get_stage lc = u_stage lc"


definition get_confirmationsRequired :: "TransactionLifecycle \<Rightarrow> jsval" where
  "get_confirmationsRequired lc = u_confirmationsRequired lc"

definition emit :: "TransactionLifecycle \<Rightarrow> string \<Rightarrow> jsval list \<Rightarrow> TransactionLifecycle" where
  "emit lc name args = lc\<lparr> emitted := emitted lc @ [(name, args)] \<rparr>"

text \<open>
  \<open>_checkPrecondition(allowedStates, desiredState)\<close>. The first parameter is documented
  as \<open>string|Array\<close>. For an array the first condition goes on to read \<open>states\<close>, which
  nothing binds. For a string \<open>Array.isArray\<close> is false, the conjunction stops there,
  and the second condition compares the two parameters with each other.
\<close>

datatype allowed_states = Single string | Several "string list"

definition transition_message :: "TransactionLifecycle \<Rightarrow> string \<Rightarrow> string \<Rightarrow> string" where
  \<open>transition_message lc allowedStates desiredState =
     ''Invalid transaction lifecycle state transition! Current state: "'' @ to_string (u_state lc)
       @ ''," desired state: "'' @ desiredState
       @ ''," allowed state: '' @ allowedStates\<close>

definition checkPrecondition ::
    "TransactionLifecycle \<Rightarrow> allowed_states \<Rightarrow> string \<Rightarrow> unit result" where
  "checkPrecondition lc allowedStates desiredState =
     (case allowedStates of
        Several xs \<Rightarrow> free_identifier ''states''
      | Single a \<Rightarrow>
          if a \<noteq> desiredState
          then Inl (ErrorObj Error (transition_message lc a desiredState))
          else Inr ())"

text \<open>
  The six transition methods. Each returns nothing and changes the object, so the model
  returns the object after the call; a throw leaves the object as the statements before
  it left it.
\<close>

definition setSubmitted :: "TransactionLifecycle \<Rightarrow> TransactionLifecycle result" where
  "setSubmitted lc =
     bindE (checkPrecondition lc (Single ''unsubmitted'') ''submitted'')
       (\<lambda>_. Inr (emit (lc\<lparr> u_state := Str ''submitted'' \<rparr>) ''submitted'' []))"

definition setFailedToSubmit :: "TransactionLifecycle \<Rightarrow> jsval \<Rightarrow> TransactionLifecycle result" where
  "setFailedToSubmit lc err =
     bindE (checkPrecondition lc (Single ''unsubmitted'') ''failedToSubmit'')
       (\<lambda>_. Inr (emit (emit (lc\<lparr> u_state := Str ''failedToSubmit'' \<rparr>)
                          ''failedToSubmit'' [err]) ''done'' []))"

definition setMined :: "TransactionLifecycle \<Rightarrow> jsval \<Rightarrow> TransactionLifecycle result" where
  "setMined lc rcpt =
     bindE (checkPrecondition lc (Single ''submitted'') ''mined'')
       (\<lambda>_. Inr (emit (lc\<lparr> u_state := Str ''mined'', u_receipt := rcpt \<rparr>) ''mined'' [rcpt]))"

definition setConfirmed :: "TransactionLifecycle \<Rightarrow> TransactionLifecycle result" where
  "setConfirmed lc =
     bindE (checkPrecondition lc (Single ''mined'') ''confirmed'')
       (\<lambda>_. Inr (emit (emit (lc\<lparr> u_state := Str ''confirmed'' \<rparr>)
                          ''confirmed'' [u_receipt lc]) ''done'' []))"

definition setConfirmedWithError :: "TransactionLifecycle \<Rightarrow> jsval \<Rightarrow> TransactionLifecycle result" where
  "setConfirmedWithError lc err =
     bindE (checkPrecondition lc (Single ''mined'') ''confirmedWithError'')
       (\<lambda>_. Inr (emit (emit (lc\<lparr> u_state := Str ''confirmedWithError'' \<rparr>)
                          ''confirmedWithError'' [err]) ''done'' []))"

definition setReorgedOut :: "TransactionLifecycle \<Rightarrow> TransactionLifecycle result" where
  "setReorgedOut lc =
     bindE (checkPrecondition lc (Single ''mined'') ''reorgedOut'')
       (\<lambda>_. Inr (emit (emit (lc\<lparr> u_state := Str ''reorgedOut'' \<rparr>)
                          ''reorgedOut'' []) ''done'' []))"

text \<open>
  The statements of \<open>setSubmitted\<close> and of \<open>setMined\<close> that follow the call of
  \<open>_checkPrecondition\<close>: the assignments and the \<open>emit\<close>, as they run once the check
  has returned.
\<close>

definition setSubmitted_body :: "TransactionLifecycle \<Rightarrow> TransactionLifecycle" where
  "setSubmitted_body lc = emit (lc\<lparr> u_state := Str ''submitted'' \<rparr>) ''submitted'' []"

definition setMined_body :: "TransactionLifecycle \<Rightarrow> jsval \<Rightarrow> TransactionLifecycle" where
  "setMined_body lc rcpt =
     emit (lc\<lparr> u_state := Str ''mined'', u_receipt := rcpt \<rparr>) ''mined'' [rcpt]"

text \<open>
  A caller's view of the object: it invokes transition methods one after another. Every
  throw of a transition method comes from \<open>_checkPrecondition\<close>, its first statement, so
  a call that throws leaves the object as it was.
\<close>

datatype operation =
    SetSubmitted
  | SetFailedToSubmit jsval
  | SetMined jsval
  | SetConfirmed
  | SetConfirmedWithError jsval
  | SetReorgedOut

fun call :: "TransactionLifecycle \<Rightarrow> operation \<Rightarrow> TransactionLifecycle result" where
  "call lc SetSubmitted = setSubmitted lc"
| "call lc (SetFailedToSubmit err) = setFailedToSubmit lc err"
| "call lc (SetMined rcpt) = setMined lc rcpt"
| "call lc SetConfirmed = setConfirmed lc"
| "call lc (SetConfirmedWithError err) = setConfirmedWithError lc err"
| "call lc SetReorgedOut = setReorgedOut lc"

definition after_call :: "TransactionLifecycle \<Rightarrow> operation \<Rightarrow> TransactionLifecycle" where
  "after_call lc op = (case call lc op of Inl e \<Rightarrow> lc | Inr lc' \<Rightarrow> lc')"

fun after_calls :: "TransactionLifecycle \<Rightarrow> operation list \<Rightarrow> TransactionLifecycle" where
  "after_calls lc [] = lc"
| "after_calls lc (op # ops) = after_calls (after_call lc op) ops"



section \<open>TransactionManager (transactionManager.js)\<close>

text \<open>
  The request manager is the RPC collaborator: \<open>send({method, params}, callback)\<close>. It
  is taken to call back once for every request, and is modelled by the pair
  \<open>(err, result)\<close> it hands to the callback.
\<close>

record rpc_request =
  rpc_method :: string
  rpc_params :: "jsval list"

type_synonym requestManager = "rpc_request \<Rightarrow> jsval \<times> jsval"

text \<open>\<open>params[0]\<close> of an array.\<close>

definition first_param :: "jsval list \<Rightarrow> jsval" where
  "first_param params = (case params of [] \<Rightarrow> Undefined | p # ps \<Rightarrow> p)"

text \<open>
  \<open>_submitTransaction(params)\<close>: \<open>rpc_request_for\<close> is the object \<open>{method, params}\<close>
  it sends; the promise rejects with \<open>err\<close> when the callback gets a truthy \<open>err\<close>
  and resolves with \<open>result\<close> otherwise.
\<close>

definition rpc_request_for :: "jsval list \<Rightarrow> rpc_request" where
  "rpc_request_for params =
     \<lparr> rpc_method =
         (if typeof (first_param params) = ''string''
          then ''eth_sendRawTransaction'' else ''eth_sendTransaction''),
       rpc_params = params \<rparr>"

definition submitTransaction :: "requestManager \<Rightarrow> jsval list \<Rightarrow> jsval result" where
  "submitTransaction rm params =
     (case rm (rpc_request_for params) of
        (err, res) \<Rightarrow> if truthy err then Inl err else Inr res)"

text \<open>\<open>_isSignedTransaction(tx)\<close>: \<open>tx.v && tx.r && tx.s\<close>, else \<open>!!tx.rawTransaction\<close>.\<close>

definition isSignedTransaction :: "jsval \<Rightarrow> bool result" where
  "isSignedTransaction tx =
     bindE (get_prop tx ''v'') (\<lambda>v.
     bindE (if truthy v then get_prop tx ''r'' else Inr v) (\<lambda>vr.
     bindE (if truthy vr then get_prop tx ''s'' else Inr vr) (\<lambda>vrs.
       if truthy vrs then Inr True
       else bindE (get_prop tx ''rawTransaction'') (\<lambda>raw. Inr (truthy raw)))))"

text \<open>
  \<open>_getWallet(from, accounts)\<close>. The function declares \<open>const wallet = null\<close> and then
  assigns \<open>wallet\<close> in each of its three branches; the right-hand side is evaluated
  first, then the assignment throws.
\<close>

definition getWallet :: "jsval \<Rightarrow> jsval \<Rightarrow> jsval result" where
  "getWallet frm accounts =
     bindE
       (bindE (get_prop accounts ''wallet'') (\<lambda>wallet.
        bindE (get_elem wallet frm) (\<lambda>byIndex.
          if truthy byIndex
          then bindE (get_prop accounts ''wallet'') (\<lambda>w. bindE (get_elem w frm) assign_const)
          else
            bindE (get_prop frm ''address'') (\<lambda>address.
            bindE (if truthy address then get_prop frm ''privateKey'' else Inr address) (\<lambda>both.
              if truthy both then assign_const frm
              else
                bindE (get_prop accounts ''wallet'') (\<lambda>w.
                bindE (toLowerCase frm) (\<lambda>lowered.
                bindE (get_elem w lowered) assign_const)))))))
       (\<lambda>wallet. Inr wallet)"

text \<open>
  \<open>_signIfNecessary(transaction, method)\<close>. Without a non-empty wallet the transaction
  is returned as it is. With one, the next statement reads \<open>tx\<close>, which nothing binds;
  the statements after it (wallet resolution and signing) are never reached.
\<close>

definition signIfNecessary :: "jsval \<Rightarrow> jsval \<Rightarrow> jsval result" where
  "signIfNecessary transaction method =
     (if \<not> truthy method then Inr transaction
      else
        bindE (get_prop method ''accounts'') (\<lambda>accounts.
          if \<not> truthy accounts then Inr transaction
          else
            bindE (get_prop accounts ''wallet'') (\<lambda>wallet.
              if \<not> truthy wallet then Inr transaction
              else
                bindE (get_prop wallet ''length'') (\<lambda>len.
                  if \<not> truthy len then Inr transaction
                  else free_identifier ''tx''))))"

text \<open>
  The two parameter lists \<open>send\<close> builds: the raw payload of a signed transaction, or an
  object literal with five fields copied from the transaction.
\<close>

definition params_signed :: "jsval \<Rightarrow> jsval list result" where
  "params_signed signedTransaction =
     bindE (get_prop signedTransaction ''rawTransaction'') (\<lambda>raw. Inr [raw])"

definition params_unsigned :: "jsval \<Rightarrow> jsval list result" where
  "params_unsigned transaction =
     bindE (get_prop transaction ''data'') (\<lambda>d.
     bindE (get_prop transaction ''from'') (\<lambda>f.
     bindE (get_prop transaction ''gas'') (\<lambda>g.
     bindE (get_prop transaction ''gasPrice'') (\<lambda>gp.
     bindE (get_prop transaction ''to'') (\<lambda>t.
       Inr [Obj [(''data'', d), (''from'', f), (''gas'', g), (''gasPrice'', gp), (''to'', t)]])))))"

text \<open>
  The \<open>try\<close>/\<open>catch\<close> of \<open>send\<close> and the end of the function. \<open>setSubmitted\<close> is
  called with the hash, which the method (declared without parameters) drops. A throw in
  the \<open>try\<close> block, from the RPC or from \<open>setSubmitted\<close>, enters the \<open>catch\<close>
  block; a throw there rejects the promise. The function has no \<open>return\<close>, so the
  promise resolves with \<open>undefined\<close>. The result pairs the resolved value with the
  lifecycle as the function leaves it.
\<close>

definition submission_step ::
    "requestManager \<Rightarrow> jsval list \<Rightarrow> TransactionLifecycle \<Rightarrow> (jsval \<times> TransactionLifecycle) result" where
  "submission_step rm params lifecycle =
     (case bindE (submitTransaction rm params) (\<lambda>transactionHash. setSubmitted lifecycle) of
        Inr lc \<Rightarrow> Inr (Undefined, lc)
      | Inl err \<Rightarrow> bindE (setFailedToSubmit lifecycle err) (\<lambda>lc. Inr (Undefined, lc)))"

text \<open>
  \<open>send(transaction, method)\<close>: \<open>Inl\<close> is a rejected promise, \<open>Inr\<close> a resolved one.
  The module binds the required class to \<open>TrasactionLifecycle\<close>, so both branches read
  the unbound identifier \<open>TransactionLifecycle\<close>; \<open>new\<close> evaluates the constructor
  before its arguments.
\<close>

definition send ::
    "requestManager \<Rightarrow> jsval \<Rightarrow> jsval \<Rightarrow> (jsval \<times> TransactionLifecycle) result" where
  "send rm transaction method =
     bindE (signIfNecessary transaction method) (\<lambda>signedTransaction.
     bindE (isSignedTransaction signedTransaction) (\<lambda>signed.
       if signed then
         bindE (free_identifier ''TransactionLifecycle'') (\<lambda>ctor.
         bindE (get_prop method ''transactionConfirmationBlocks'') (\<lambda>blocks.
         bindE (params_signed signedTransaction) (\<lambda>params.
           submission_step rm params (ctor signedTransaction blocks))))
       else
         bindE (free_identifier ''TransactionLifecycle'') (\<lambda>ctor.
         bindE (params_unsigned transaction) (\<lambda>params.
           submission_step rm params (ctor transaction Undefined)))))"

text \<open>
  The handlers \<open>_initializeLifecycle\<close> registers on a lifecycle, by event name. Five of
  them have empty bodies. \<open>_handleMined\<close> reads \<open>lifecycle.transactionConfirmationBlocks\<close>:
  \<open>lifecycle_prop\<close> gives the data properties of a lifecycle object, its fields and
  getters; every other name that is not a method reads as \<open>undefined\<close>.
\<close>

definition lifecycle_prop :: "TransactionLifecycle \<Rightarrow> string \<Rightarrow> jsval" where
  "lifecycle_prop lc k =
     (if k = ''_transaction'' \<or> k = ''transaction'' then u_transaction lc
      else if k = ''_stage'' \<or> k = ''stage'' then u_stage lc
      else if k = ''_receipt'' \<or> k = ''receipt'' then u_receipt lc
      else if k = ''_confirmationsRequired'' \<or> k = ''confirmationsRequired''
        then u_confirmationsRequired lc
      else if k = ''_state'' then u_state lc
      else Undefined)"

definition handleSubmitted :: "TransactionLifecycle \<Rightarrow> jsval \<Rightarrow> TransactionLifecycle result" where
  "handleSubmitted lifecycle transactionHash = Inr lifecycle"

definition handleFailedSubmission :: "TransactionLifecycle \<Rightarrow> jsval \<Rightarrow> TransactionLifecycle result" where
  "handleFailedSubmission lifecycle err = Inr lifecycle"

definition handleMined :: "TransactionLifecycle \<Rightarrow> jsval \<Rightarrow> TransactionLifecycle result" where
  "handleMined lifecycle rcpt =
     (if \<not> truthy (lifecycle_prop lifecycle ''transactionConfirmationBlocks'')
      then setConfirmed lifecycle
      else Inr lifecycle)"

definition handleConfirmed :: "TransactionLifecycle \<Rightarrow> TransactionLifecycle result" where
  "handleConfirmed lifecycle = Inr lifecycle"

definition handleConfirmedWithError :: "TransactionLifecycle \<Rightarrow> jsval \<Rightarrow> TransactionLifecycle result" where
  "handleConfirmedWithError lifecycle err = Inr lifecycle"

definition handleReorgedOut :: "TransactionLifecycle \<Rightarrow> TransactionLifecycle result" where
  "handleReorgedOut lifecycle = Inr lifecycle"

datatype manager_handler =
    HandleSubmitted
  | HandleFailedSubmission
  | HandleMined
  | HandleConfirmed
  | HandleConfirmedWithError
  | HandleReorgedOut

definition initializeLifecycle :: "(string \<times> manager_handler) list" where
  "initializeLifecycle =
     [(''submitted'', HandleSubmitted),
      (''failedToSubmit'', HandleFailedSubmission),
      (''mined'', HandleMined),
      (''confirmed'', HandleConfirmed),
      (''confirmedWithError'', HandleConfirmedWithError),
      (''reorgedOut'', HandleReorgedOut)]"

fun run_handler :: "manager_handler \<Rightarrow> TransactionLifecycle \<Rightarrow> jsval list \<Rightarrow> TransactionLifecycle result" where
  "run_handler HandleSubmitted lc args = handleSubmitted lc (first_param args)"
| "run_handler HandleFailedSubmission lc args = handleFailedSubmission lc (first_param args)"
| "run_handler HandleMined lc args = handleMined lc (first_param args)"
| "run_handler HandleConfirmed lc args = handleConfirmed lc"
| "run_handler HandleConfirmedWithError lc args = handleConfirmedWithError lc (first_param args)"
| "run_handler HandleReorgedOut lc args = handleReorgedOut lc"

section \<open>BlockTracker\<close>

text \<open>
  The tracker's fields: \<open>_latestBlock\<close>, whether the listener for the subscription's
  \<open>data\<close> event is attached, and the events the tracker has emitted.
  \<open>_initializeSubscription\<close> builds the argument of \<open>new Subscriptions\<close> first, an
  object literal that reads \<open>formatters\<close>, which nothing binds; the statements after it
  would subscribe and attach the listener \<open>data_listener\<close>, which forwards the header.
  \<open>deliver\<close> is the arrival of one header from the subscription.
\<close>

record BlockTracker =
  t_latestBlock :: jsval
  t_listening :: bool
  t_emitted :: "(string \<times> jsval list) list"

definition new_BlockTracker :: BlockTracker where
  "new_BlockTracker = \<lparr> t_latestBlock = Null, t_listening = False, t_emitted = [] \<rparr>"

definition data_listener :: "BlockTracker \<Rightarrow> jsval \<Rightarrow> BlockTracker" where
  "data_listener t block = t\<lparr> t_emitted := t_emitted t @ [(''block'', [block])] \<rparr>"

definition initializeSubscription :: "BlockTracker \<Rightarrow> BlockTracker result" where
  "initializeSubscription t =
     bindE (free_identifier ''formatters'') (\<lambda>formatters.
     bindE (get_prop formatters ''outputBlockFormatter'') (\<lambda>outputFormatter.
       Inr (t\<lparr> t_listening := True \<rparr>)))"

definition deliver :: "BlockTracker \<Rightarrow> jsval \<Rightarrow> BlockTracker" where
  "deliver t block = (if t_listening t then data_listener t block else t)"

section \<open>Properties of the lifecycle\<close>

lemma call_throws:
  "call lc op = Inl (ErrorObj Error (transition_message lc
      (case op of SetSubmitted \<Rightarrow> ''unsubmitted'' | SetFailedToSubmit e \<Rightarrow> ''unsubmitted''
         | SetMined r \<Rightarrow> ''submitted'' | _ \<Rightarrow> ''mined'')
      (case op of SetSubmitted \<Rightarrow> ''submitted'' | SetFailedToSubmit e \<Rightarrow> ''failedToSubmit''
         | SetMined r \<Rightarrow> ''mined'' | SetConfirmed \<Rightarrow> ''confirmed''
         | SetConfirmedWithError e \<Rightarrow> ''confirmedWithError'' | SetReorgedOut \<Rightarrow> ''reorgedOut'')))"
  by (cases op)
     (simp_all add: setSubmitted_def setFailedToSubmit_def setMined_def setConfirmed_def
        setConfirmedWithError_def setReorgedOut_def checkPrecondition_def bindE_def)

lemma after_call_same: "after_call lc op = lc"
  by (simp add: after_call_def call_throws)

lemma after_calls_same: "after_calls lc ops = lc"
  by (induction ops arbitrary: lc) (simp_all add: after_call_same)

text \<open>
  C1 (the code at the input where the claim fails). A lifecycle fresh from the constructor
  reports the stage \<open>unsubmitted\<close>, the stage \<open>setSubmitted\<close> requires, and
  \<open>setSubmitted()\<close> throws all the same: \<open>_checkPrecondition\<close> compares the allowed
  stage with the desired stage, which differ at every call site, and never looks at the
  current one. The message names the field \<open>_state\<close>, still \<open>undefined\<close>. Every
  transition method throws on every lifecycle.
\<close>

theorem C1_setSubmitted_throws_from_unsubmitted:
  \<open>get_stage (new_TransactionLifecycle tx n) = Str ''unsubmitted'' \<and>
   setSubmitted (new_TransactionLifecycle tx n) =
     Inl (ErrorObj Error
       ''Invalid transaction lifecycle state transition! Current state: "undefined," desired state: "submitted," allowed state: unsubmitted'') \<and>
   (\<exists>e. call lc op = Inl e)\<close>
  by (simp add: call_throws get_stage_def setSubmitted_def checkPrecondition_def bindE_def
      transition_message_def new_TransactionLifecycle_def)


lemma setSubmitted_runs_body:
  "setSubmitted lc =
     bindE (checkPrecondition lc (Single ''unsubmitted'') ''submitted'')
       (\<lambda>u. Inr (setSubmitted_body lc))"
  by (simp add: setSubmitted_def setSubmitted_body_def)

lemma setMined_runs_body:
  "setMined lc rcpt =
     bindE (checkPrecondition lc (Single ''submitted'') ''mined'')
       (\<lambda>u. Inr (setMined_body lc rcpt))"
  by (simp add: setMined_def setMined_body_def)


text \<open>
  C10. The getter \<open>stage\<close> reads \<open>_stage\<close>, which only the constructor writes; the
  transition methods assign \<open>_state\<close>. So after any sequence of calls of transition
  methods the getter still reports \<open>unsubmitted\<close>, and no call changes what it reports
  on any lifecycle.
\<close>

theorem C10_stage_getter_stays_unsubmitted:
  "get_stage (after_calls (new_TransactionLifecycle tx n) ops) = Str ''unsubmitted'' \<and>
   get_stage (after_call lc op) = get_stage lc"
  by (simp add: after_calls_same after_call_same get_stage_def new_TransactionLifecycle_def)

section \<open>Properties of the manager and the block tracker\<close>

lemma handleMined_calls_setConfirmed: "handleMined lc rcpt = setConfirmed lc"
  by (simp add: handleMined_def lifecycle_prop_def)

lemma submission_step_rejects:
  "submission_step rm params lc =
     Inl (ErrorObj Error (transition_message lc ''unsubmitted'' ''failedToSubmit''))"
  by (simp add: submission_step_def setSubmitted_def setFailedToSubmit_def
      checkPrecondition_def bindE_def split: sum.splits)

lemma send_rejects: "\<exists>e. send rm transaction method = Inl e"
  by (simp add: send_def bindE_def free_identifier_def split: sum.splits)

lemma data_listener_latestBlock:
  "t_latestBlock (foldl data_listener t headers) = t_latestBlock t"
  by (induction headers arbitrary: t) (simp_all add: data_listener_def)

lemma data_listener_emitted:
  "t_emitted (foldl data_listener t headers) =
     t_emitted t @ map (\<lambda>h. (''block'', [h])) headers"
  by (induction headers arbitrary: t) (simp_all add: data_listener_def)

text \<open>
  C2 (the code at the input where the claim fails). A lifecycle that requires three
  confirmations and has just been mined: \<open>_handleMined\<close> calls \<open>setConfirmed()\<close> at
  once, with no block observed. Its guard reads \<open>lifecycle.transactionConfirmationBlocks\<close>,
  a property no lifecycle has (the number is kept in \<open>confirmationsRequired\<close>), so the
  guard holds for every lifecycle. The call then throws as every transition method does.
\<close>

theorem C2_handleMined_confirms_at_once:
  \<open>get_confirmationsRequired
     ((new_TransactionLifecycle tx (Num 3))\<lparr> u_state := Str ''mined'', u_receipt := rcpt \<rparr>) = Num 3 \<and>
   handleMined ((new_TransactionLifecycle tx (Num 3))\<lparr> u_state := Str ''mined'', u_receipt := rcpt \<rparr>) rcpt =
     setConfirmed ((new_TransactionLifecycle tx (Num 3))\<lparr> u_state := Str ''mined'', u_receipt := rcpt \<rparr>) \<and>
   handleMined ((new_TransactionLifecycle tx (Num 3))\<lparr> u_state := Str ''mined'', u_receipt := rcpt \<rparr>) rcpt =
     Inl (ErrorObj Error
       ''Invalid transaction lifecycle state transition! Current state: "mined," desired state: "confirmed," allowed state: mined'')\<close>
  by (simp add: handleMined_def lifecycle_prop_def get_confirmationsRequired_def setConfirmed_def
      checkPrecondition_def bindE_def transition_message_def new_TransactionLifecycle_def)

text \<open>
  C3 (the code at the input where the claim fails). \<open>send\<close> of a plain unsigned
  transaction, with no signing context, rejects with a \<open>ReferenceError\<close> before anything
  is submitted, whatever the request manager answers; no call of \<open>send\<close> resolves. The
  submission step itself, entered with any lifecycle and any parameters, rejects as well:
  \<open>setSubmitted\<close> throws, the \<open>catch\<close> block calls \<open>setFailedToSubmit\<close>, and that
  throws out of \<open>send\<close>.
\<close>

theorem C3_send_rejects:
  "send rm (Obj [(''from'', Str ''0xabc''), (''to'', Str ''0xdef''), (''data'', Str ''0x'')]) Undefined =
     Inl (ErrorObj ReferenceError ''TransactionLifecycle is not defined'') \<and>
   (\<exists>e. send rm transaction method = Inl e) \<and>
   submission_step rm params lc =
     Inl (ErrorObj Error (transition_message lc ''unsubmitted'' ''failedToSubmit''))"
  using send_rejects [of rm "transaction" "method"]
  by (simp add: submission_step_rejects send_def signIfNecessary_def isSignedTransaction_def
      own_prop_def free_identifier_def bindE_def)

text \<open>
  C5 (the code at the input where the claim fails). Three headers reach the tracker's
  listener; the third has the same parent as the second, so the block of the second (where
  the transaction was mined) is detached. The tracker emits three \<open>block\<close> events and no
  \<open>reorg\<close> event. The manager registers listeners for the six events of a lifecycle
  only, and its \<open>_handleReorgedOut\<close> leaves the lifecycle as it is: nothing calls
  \<open>setReorgedOut()\<close>.
\<close>

theorem C5_no_reorg_event_and_no_reorg_handler:
  "t_emitted (foldl data_listener new_BlockTracker
      [Obj [(''number'', Num 1), (''hash'', Str ''0xa1''), (''parentHash'', Str ''0xa0'')],
       Obj [(''number'', Num 2), (''hash'', Str ''0xb2''), (''parentHash'', Str ''0xa1'')],
       Obj [(''number'', Num 2), (''hash'', Str ''0xc2''), (''parentHash'', Str ''0xa1'')]]) =
     [(''block'', [Obj [(''number'', Num 1), (''hash'', Str ''0xa1''), (''parentHash'', Str ''0xa0'')]]),
      (''block'', [Obj [(''number'', Num 2), (''hash'', Str ''0xb2''), (''parentHash'', Str ''0xa1'')]]),
      (''block'', [Obj [(''number'', Num 2), (''hash'', Str ''0xc2''), (''parentHash'', Str ''0xa1'')]])] \<and>
   map fst initializeLifecycle =
     [''submitted'', ''failedToSubmit'', ''mined'', ''confirmed'', ''confirmedWithError'', ''reorgedOut''] \<and>
   run_handler HandleReorgedOut lc args = Inr lc"
  by (simp add: data_listener_def new_BlockTracker_def initializeLifecycle_def handleReorgedOut_def)

text \<open>
  C6 (the code at the input where the claim fails). The first header ever seen:
  \<open>_initializeSubscription\<close> throws before it attaches the listener, so the header is
  not processed at all; and the listener itself, given the header, emits the \<open>block\<close>
  event but leaves \<open>_latestBlock\<close> null, as it does after any sequence of headers.
\<close>

theorem C6_latestBlock_never_updated:
  "initializeSubscription new_BlockTracker =
     Inl (ErrorObj ReferenceError ''formatters is not defined'') \<and>
   deliver new_BlockTracker
     (Obj [(''number'', Num 1), (''hash'', Str ''0xa1''), (''parentHash'', Str ''0xa0'')]) =
     new_BlockTracker \<and>
   data_listener new_BlockTracker
     (Obj [(''number'', Num 1), (''hash'', Str ''0xa1''), (''parentHash'', Str ''0xa0'')]) =
     \<lparr> t_latestBlock = Null, t_listening = False,
       t_emitted = [(''block'',
         [Obj [(''number'', Num 1), (''hash'', Str ''0xa1''), (''parentHash'', Str ''0xa0'')]])] \<rparr> \<and>
   t_latestBlock (foldl data_listener new_BlockTracker headers) = Null"
  by (simp add: data_listener_latestBlock initializeSubscription_def free_identifier_def
      bindE_def deliver_def data_listener_def new_BlockTracker_def)

text \<open>
  C8 (the code at the input where the claim fails). The collection holds \<open>key1\<close> under
  \<open>0xABC\<close> and the designator is \<open>0xabc\<close>. The third branch lowers the designator
  only, so the lookup in the collection yields \<open>undefined\<close>, and the assignment of that
  value to the constant \<open>wallet\<close> throws: \<open>_getWallet\<close> does not return \<open>key1\<close>.
\<close>

theorem C8_getWallet_throws:
  "getWallet (Str ''0xabc'') (Obj [(''wallet'', Obj [(''0xABC'', key1)])]) =
     Inl (ErrorObj TypeError ''Assignment to constant variable.'') \<and>
   bindE (toLowerCase (Str ''0xabc'')) (get_elem (Obj [(''0xABC'', key1)])) = Inr Undefined"
  by (simp add: getWallet_def get_elem_def own_prop_def bindE_def assign_const_def lower_char_def)

text \<open>
  The request \<open>_submitTransaction\<close> sends: its method depends on the first parameter
  alone, \<open>eth_sendRawTransaction\<close> when it is a string and \<open>eth_sendTransaction\<close> for
  any other value; the parameters are passed on as they are, and the promise settles by
  the collaborator's answer. The parameter list built for a transaction that is not signed
  is one object with exactly the fields \<open>data\<close>, \<open>from\<close>, \<open>gas\<close>, \<open>gasPrice\<close>,
  \<open>to\<close>, each with the transaction's own value.
\<close>

lemma request_method_from_first_parameter:
  "rpc_method (rpc_request_for params) =
     (case first_param params of
        Str raw \<Rightarrow> ''eth_sendRawTransaction''
      | _ \<Rightarrow> ''eth_sendTransaction'') \<and>
   rpc_params (rpc_request_for params) = params \<and>
   submitTransaction rm params =
     (if truthy (fst (rm (rpc_request_for params)))
      then Inl (fst (rm (rpc_request_for params)))
      else Inr (snd (rm (rpc_request_for params)))) \<and>
   params_unsigned (Obj kvs) =
     Inr [Obj [(''data'', own_prop kvs ''data''), (''from'', own_prop kvs ''from''),
               (''gas'', own_prop kvs ''gas''), (''gasPrice'', own_prop kvs ''gasPrice''),
               (''to'', own_prop kvs ''to'')]]"
  by (cases "first_param params")
     (simp_all add: rpc_request_for_def submitTransaction_def params_unsigned_def bindE_def
        first_param_def split: prod.splits)


end
